theory Spec2Isabelle
  imports Complex_Main "HOL-Library.Multiset"
begin

section \<open>Embedding construction and the CoNLL example of graph4nlp\<close>

text \<open>
  A shallow embedding of
  \<^verbatim>\<open>graph4nlp/pytorch/modules/graph_construction/embedding_construction.py\<close> and of
  \<^verbatim>\<open>examples/pytorch/name_entity_recognition/conll.py\<close>.

  Tensors are nested lists: a vector is a list of scalars, a matrix a list of
  vectors, a batch of sequences a list of matrices.  Python exceptions are
  values of \<open>py_error\<close>, and a function that can raise returns
  \<open>py_error + result\<close> with \<open>Inl\<close> the exception.  The primitives of the tensor
  framework that the source calls (sorting, indexing, packing, stacking,
  concatenation) are written out with the guards under which the framework
  raises; the trained networks themselves (the weights of an LSTM or GRU)
  are parameters of the model.  Tensors of lengths, counts and word indices
  are lists of natural numbers.
\<close>

subsection \<open>Exceptions\<close>

datatype py_error =
  RuntimeError | NameError | TypeError | IndexError | NotImplementedError | UnboundLocalError

subsection \<open>\<open>RNNEmbedding.__init__\<close>\<close>

text \<open>
  The fields set by the constructor.  \<open>model\<close> is the network built by
  \<^verbatim>\<open>nn.LSTM\<close> or \<^verbatim>\<open>nn.GRU\<close>; its type \<open>'net\<close> is left open.
  \<open>hidden_size\<close> is the per-direction size stored in \<^verbatim>\<open>self.hidden_size\<close>.
\<close>

record 'net RNNEmbedding =
  rnn_type :: string
  hidden_size :: "int option"
  num_directions :: nat
  model :: 'net

text \<open>
  The constructor of the source, lines 392 to 415.  The argument \<open>nn\<close> stands
  for the two framework constructors: it receives the cell type, the input
  size, the per-direction hidden size and the bidirectional flag.  With
  \<^verbatim>\<open>hidden_size=None\<close> (the default) the test \<^verbatim>\<open>hidden_size % 2\<close> of the
  bidirectional mode is a \<^verbatim>\<open>TypeError\<close> of Python; in the other mode
  \<^verbatim>\<open>None\<close> is handed to the framework as it is.
\<close>

definition RNNEmbedding_init ::
  "(string \<Rightarrow> int \<Rightarrow> int option \<Rightarrow> bool \<Rightarrow> py_error + 'net) \<Rightarrow>
   int \<Rightarrow> int option \<Rightarrow> bool \<Rightarrow> string \<Rightarrow> py_error + 'net RNNEmbedding" where
  "RNNEmbedding_init nn input_size hidden bidirectional rtype =
     (if \<not> (rtype = ''lstm'' \<or> rtype = ''gru'') then Inl RuntimeError
      else if bidirectional \<and> hidden = None then Inl TypeError
      else if bidirectional \<and> the hidden mod 2 \<noteq> 0 then Inl RuntimeError
      else
        (let hs = (if bidirectional then Some (the hidden div 2) else hidden);
             nd = (if bidirectional then 2 else 1 :: nat)
         in case nn (if rtype = ''lstm'' then ''lstm'' else ''gru'') input_size hs bidirectional of
              Inl e \<Rightarrow> Inl e
            | Inr net \<Rightarrow>
                Inr \<lparr>rnn_type = rtype, hidden_size = hs, num_directions = nd, model = net\<rparr>))"

subsection \<open>\<open>EmbeddingConstruction.__init__\<close>\<close>

text \<open>
  \<^verbatim>\<open>word_emb_type\<close> is a string or a list of strings; a string is wrapped
  into a one-element list (lines 89 and 90).
\<close>

datatype word_emb_type = Str string | StrList "string list"

definition as_list :: "word_emb_type \<Rightarrow> string list" where
  "as_list t = (case t of Str s \<Rightarrow> [s] | StrList ss \<Rightarrow> ss)"

text \<open>
  A word embedding layer is the lookup table of \<^verbatim>\<open>WordEmbedding\<close> (the
  pretrained matrix, one row per word) or the \<^verbatim>\<open>BertEmbedding\<close> stub.
\<close>

datatype 'a word_emb_layer = WordEmbedding "'a list list" | BertEmbedding bool

datatype 'net node_edge_emb_layer = MeanEmbedding | RNNLayer "'net RNNEmbedding"

record ('a, 'net) EmbeddingConstruction =
  node_edge_emb_strategy :: string
  seq_info_encode_strategy :: string
  word_emb_layers :: "'a word_emb_layer list"
  node_edge_emb_layer :: "'net node_edge_emb_layer"
  seq_info_encode_layer :: "'net RNNEmbedding option"

text \<open>
  \<^verbatim>\<open>word_vocab.embeddings.shape[1]\<close>: the width of the pretrained matrix.
\<close>

definition shape1 :: "'a list list \<Rightarrow> int" where
  "shape1 emb = (case emb of [] \<Rightarrow> 0 | r # _ \<Rightarrow> int (length r))"

text \<open>Lines 103 to 130: the layer for the node/edge embedding strategy.\<close>

definition make_node_edge_emb_layer ::
  "(string \<Rightarrow> int \<Rightarrow> int option \<Rightarrow> bool \<Rightarrow> py_error + 'net) \<Rightarrow>
   int \<Rightarrow> int option \<Rightarrow> string \<Rightarrow> py_error + 'net node_edge_emb_layer" where
  "make_node_edge_emb_layer nn width hidden strategy =
     (if strategy = ''mean'' then Inr MeanEmbedding
      else if strategy = ''lstm'' then
        map_sum id RNNLayer (RNNEmbedding_init nn width hidden False ''lstm'')
      else if strategy = ''bilstm'' then
        map_sum id RNNLayer (RNNEmbedding_init nn width hidden True ''lstm'')
      else if strategy = ''gru'' then
        map_sum id RNNLayer (RNNEmbedding_init nn width hidden False ''gru'')
      else if strategy = ''bigru'' then
        map_sum id RNNLayer (RNNEmbedding_init nn width hidden True ''gru'')
      else Inl RuntimeError)"

text \<open>
  Lines 132 to 163: the layer for the sequence encoding strategy.  Its input
  size is the embedding width after \<^verbatim>\<open>'mean'\<close> and \<^verbatim>\<open>hidden_size\<close>
  otherwise; the framework constructor receives the latter as an integer, so
  \<^verbatim>\<open>None\<close> there is a \<^verbatim>\<open>TypeError\<close> of the framework.
\<close>

definition seq_input_size :: "int \<Rightarrow> int option \<Rightarrow> string \<Rightarrow> py_error + int" where
  "seq_input_size width hidden ne_strategy =
     (if ne_strategy = ''mean'' then Inr width
      else case hidden of None \<Rightarrow> Inl TypeError | Some h \<Rightarrow> Inr h)"

definition make_seq_info_encode_layer ::
  "(string \<Rightarrow> int \<Rightarrow> int option \<Rightarrow> bool \<Rightarrow> py_error + 'net) \<Rightarrow>
   int \<Rightarrow> int option \<Rightarrow> string \<Rightarrow> string \<Rightarrow> py_error + 'net RNNEmbedding option" where
  "make_seq_info_encode_layer nn width hidden ne_strategy strategy =
     (let build = (\<lambda>bidirectional rtype.
            case seq_input_size width hidden ne_strategy of
              Inl e \<Rightarrow> Inl e
            | Inr isz \<Rightarrow> map_sum id Some (RNNEmbedding_init nn isz hidden bidirectional rtype))
      in if strategy = ''none'' then Inr None
         else if strategy = ''lstm'' then build False ''lstm''
         else if strategy = ''bilstm'' then build True ''lstm''
         else if strategy = ''gru'' then build False ''gru''
         else if strategy = ''bigru'' then build True ''gru''
         else Inl RuntimeError)"

text \<open>
  The constructor, lines 75 to 163.  \<open>embeddings\<close> is
  \<^verbatim>\<open>word_vocab.embeddings\<close>.  The layers are built in the order of the
  source, so the first failure is the one raised.
\<close>

definition EmbeddingConstruction_init ::
  "(string \<Rightarrow> int \<Rightarrow> int option \<Rightarrow> bool \<Rightarrow> py_error + 'net) \<Rightarrow>
   'a list list \<Rightarrow> word_emb_type \<Rightarrow> string \<Rightarrow> string \<Rightarrow> int option \<Rightarrow> bool \<Rightarrow>
   py_error + ('a, 'net) EmbeddingConstruction" where
  "EmbeddingConstruction_init nn embeddings wtype ne_strategy seq_strategy hidden fix_word_emb =
     (let types = as_list wtype;
          layers = (if ''w2v'' \<in> set types then [WordEmbedding embeddings] else []) @
                   (if ''bert'' \<in> set types then [BertEmbedding fix_word_emb] else [])
      in case make_node_edge_emb_layer nn (shape1 embeddings) hidden ne_strategy of
           Inl e \<Rightarrow> Inl e
         | Inr ne_layer \<Rightarrow>
            (case make_seq_info_encode_layer nn (shape1 embeddings) hidden ne_strategy seq_strategy of
               Inl e \<Rightarrow> Inl e
             | Inr seq_layer \<Rightarrow>
                 Inr \<lparr>node_edge_emb_strategy = ne_strategy,
                      seq_info_encode_strategy = seq_strategy,
                      word_emb_layers = layers,
                      node_edge_emb_layer = ne_layer,
                      seq_info_encode_layer = seq_layer\<rparr>))"

subsection \<open>Scalars\<close>

text \<open>
  The entries of a float tensor.  Rounding and overflow are not modelled: a
  finite entry is a real number and arithmetic on finite entries is exact.
  The special values of the floating-point format are kept, so that a
  division by zero is visible: it gives an infinity or not-a-number, as the
  tensor framework does, and never raises.
\<close>

datatype fval = Fin real | PInf | NInf | NaN

definition is_finite :: "fval \<Rightarrow> bool" where
  "is_finite v = (case v of Fin _ \<Rightarrow> True | _ \<Rightarrow> False)"

fun fadd :: "fval \<Rightarrow> fval \<Rightarrow> fval" where
  "fadd (Fin a) (Fin b) = Fin (a + b)"
| "fadd NaN _ = NaN"
| "fadd _ NaN = NaN"
| "fadd PInf NInf = NaN"
| "fadd NInf PInf = NaN"
| "fadd PInf _ = PInf"
| "fadd _ PInf = PInf"
| "fadd NInf _ = NInf"
| "fadd _ NInf = NInf"

fun fdiv :: "fval \<Rightarrow> fval \<Rightarrow> fval" where
  "fdiv (Fin a) (Fin b) =
     (if b \<noteq> 0 then Fin (a / b)
      else if a > 0 then PInf else if a < 0 then NInf else NaN)"
| "fdiv NaN _ = NaN"
| "fdiv _ NaN = NaN"
| "fdiv (Fin a) _ = Fin 0"
| "fdiv PInf (Fin b) = (if b < 0 then NInf else PInf)"
| "fdiv NInf (Fin b) = (if b < 0 then PInf else NInf)"
| "fdiv _ _ = NaN"

text \<open>\<^verbatim>\<open>.float()\<close> on a tensor of lengths.\<close>

definition to_float :: "nat \<Rightarrow> fval" where
  "to_float n = Fin (real n)"

text \<open>\<^verbatim>\<open>torch.zeros(n, d)\<close>.\<close>

definition zeros :: "nat \<Rightarrow> nat \<Rightarrow> fval list list" where
  "zeros n d = replicate n (replicate d (Fin 0))"

subsection \<open>Primitives of the tensor framework\<close>

text \<open>
  \<^verbatim>\<open>torch.sort(v, 0, descending=True)\<close> and \<^verbatim>\<open>torch.sort(v, 0)\<close> on a
  vector of lengths or indices: the sorted values and the permutation that
  sorts them.  Ties are kept in their input order.
\<close>

definition torch_sort_desc :: "nat list \<Rightarrow> nat list \<times> nat list" where
  "torch_sort_desc v =
     (let indx = sort_key (\<lambda>i. - int (v ! i)) [0..<length v]
      in (map (\<lambda>i. v ! i) indx, indx))"

definition torch_sort :: "nat list \<Rightarrow> nat list \<times> nat list" where
  "torch_sort v =
     (let indx = sort_key (\<lambda>i. v ! i) [0..<length v]
      in (map (\<lambda>i. v ! i) indx, indx))"

text \<open>
  \<^verbatim>\<open>x[indx]\<close> with a tensor of indices: the rows of \<open>x\<close> at these
  positions; an index beyond the first dimension raises \<^verbatim>\<open>IndexError\<close>.
\<close>

definition index_rows :: "'a list \<Rightarrow> nat list \<Rightarrow> py_error + 'a list" where
  "index_rows x indx =
     (if list_all (\<lambda>i. i < length x) indx then Inr (map (\<lambda>i. x ! i) indx)
      else Inl IndexError)"

text \<open>
  \<^verbatim>\<open>pack_padded_sequence(x, lengths, batch_first=True)\<close>: sequence \<open>i\<close>
  of the batch is cut to its first \<open>lengths[i]\<close> steps.  The framework
  raises \<^verbatim>\<open>RuntimeError\<close> on an empty batch, when the number of lengths
  is not the batch size, when a length is zero, when the lengths are not in
  decreasing order, and when a length exceeds the padded length.
\<close>

definition pack_padded_sequence :: "'a list list \<Rightarrow> nat list \<Rightarrow> py_error + 'a list list" where
  "pack_padded_sequence x lengths =
     (if x = [] \<or> length lengths \<noteq> length x then Inl RuntimeError
      else if list_ex (\<lambda>l. l = 0) lengths then Inl RuntimeError
      else if \<not> sorted (rev lengths) then Inl RuntimeError
      else if list_ex (\<lambda>(l, s). length s < l) (zip lengths x) then Inl RuntimeError
      else Inr (map2 take lengths x))"

text \<open>
  \<^verbatim>\<open>pad_packed_sequence(packed_h, batch_first=True)\<close>: every sequence
  is filled with zero rows of width \<open>d\<close> up to the longest one.
\<close>

definition pad_packed_sequence :: "nat \<Rightarrow> fval list list list \<Rightarrow> fval list list list" where
  "pad_packed_sequence d hs =
     (let T = Max (set (0 # map length hs))
      in map (\<lambda>h. h @ zeros (T - length h) d) hs)"

subsection \<open>\<open>RNNEmbedding.forward\<close>\<close>

text \<open>
  The network \<^verbatim>\<open>self.model\<close> is given by what it computes on one
  sequence started from the zero state: the hidden state at every time step
  and the final hidden state of each direction.  The framework applies it to
  every sequence of a packed batch on its own.  The network is taken to
  accept every sequence it is given: a feature width that does not fit its
  input size, on which the framework raises, is not modelled.
\<close>

type_synonym rnn = "fval list list \<Rightarrow> fval list list \<times> fval list list"

text \<open>
  \<^verbatim>\<open>packed_h_t\<close> has one final state per direction.  With two
  directions the LSTM branch concatenates them along the feature axis; with
  one direction \<^verbatim>\<open>squeeze(0)\<close> leaves the state of that direction.
\<close>

definition cat_directions :: "fval list list \<Rightarrow> fval list" where
  "cat_directions dirs = concat dirs"

definition squeeze0 :: "fval list list \<Rightarrow> fval list" where
  "squeeze0 dirs = (case dirs of [v] \<Rightarrow> v | _ \<Rightarrow> concat dirs)"

text \<open>The width \<^verbatim>\<open>num_directions * hidden_size\<close> of a hidden state.\<close>

definition out_width :: "'net RNNEmbedding \<Rightarrow> nat" where
  "out_width m =
     (case hidden_size m of None \<Rightarrow> 0 | Some h \<Rightarrow> num_directions m * nat h)"

text \<open>
  Lines 434 to 460.  In the bidirectional GRU branch (line 449) the name
  \<^verbatim>\<open>query_lengths\<close> is not defined: evaluating it raises
  \<^verbatim>\<open>NameError\<close>.
\<close>

definition RNNEmbedding_forward ::
  "rnn RNNEmbedding \<Rightarrow> fval list list list \<Rightarrow> nat list \<Rightarrow>
   py_error + (fval list list list \<times> fval list list)" where
  "RNNEmbedding_forward m x x_len =
     (let (sorted_x_len, indx) = torch_sort_desc x_len
      in case index_rows x indx of
           Inl e \<Rightarrow> Inl e
         | Inr xs \<Rightarrow>
        (case pack_padded_sequence xs sorted_x_len of
           Inl e \<Rightarrow> Inl e
         | Inr packed \<Rightarrow>
        (let out = map (model m) packed;
             packed_h = map fst out
         in case (if rnn_type m = ''lstm''
                  then (if num_directions m = 2
                        then Inr (map (cat_directions \<circ> snd) out)
                        else Inr (map (squeeze0 \<circ> snd) out))
                  else (if num_directions m = 2
                        then Inl NameError
                        else Inr (map (squeeze0 \<circ> snd) out))) of
              Inl e \<Rightarrow> Inl e
            | Inr packed_h_t \<Rightarrow>
           (let hh = pad_packed_sequence (out_width m) packed_h;
                inverse_indx = snd (torch_sort indx)
            in case index_rows hh inverse_indx of
                 Inl e \<Rightarrow> Inl e
               | Inr restore_hh \<Rightarrow>
                  (case index_rows packed_h_t inverse_indx of
                     Inl e \<Rightarrow> Inl e
                   | Inr restore_packed_h_t \<Rightarrow> Inr (restore_hh, restore_packed_h_t))))))"

text \<open>
  The final hidden state of one sequence, as lines 441 to 444 and 448 to 451
  form it from the states of the directions.
\<close>

definition final_state :: "rnn RNNEmbedding \<Rightarrow> fval list list \<Rightarrow> fval list" where
  "final_state m = (if num_directions m = 2 then cat_directions else squeeze0)"

text \<open>
  Reference for the order of the output rows: the network applied to the
  sequences in the order of the input, with no sorting, then padded.
\<close>

definition forward_in_input_order ::
  "rnn RNNEmbedding \<Rightarrow> fval list list list \<Rightarrow> nat list \<Rightarrow> fval list list list \<times> fval list list" where
  "forward_in_input_order m x x_len =
     (let out = map (\<lambda>i. model m (take (x_len ! i) (x ! i))) [0..<length x_len]
      in (pad_packed_sequence (out_width m) (map fst out),
          map ((if num_directions m = 2 then cat_directions else squeeze0) \<circ> snd) out))"

text \<open>A concrete network, to evaluate the model on examples.\<close>

definition example_rnn :: rnn where
  "example_rnn s = (map (map (\<lambda>v. fadd v (Fin 1))) s, [last s])"

subsection \<open>\<open>MeanEmbedding.forward\<close>\<close>

text \<open>
  \<^verbatim>\<open>torch.sum(emb, dim=1)\<close> for one item: the rows of the item (one per
  position of the word sequence) are added up entry by entry.  A list of
  rows does not keep the width of an item without positions, so such an item
  gives the empty row.
\<close>

definition sum_dim1 :: "fval list list \<Rightarrow> fval list" where
  "sum_dim1 rows = (case rows of [] \<Rightarrow> [] | r # rs \<Rightarrow> foldl (map2 fadd) r rs)"

text \<open>
  Lines 369 to 371.  \<open>lens\<close> is the argument \<^verbatim>\<open>len_\<close> of the source.
  \<^verbatim>\<open>expand_as\<close> needs one length per item, or a single length that is
  broadcast to all items, and raises \<^verbatim>\<open>RuntimeError\<close> otherwise.  No
  length is compared with zero.
\<close>

definition MeanEmbedding_forward :: "fval list list list \<Rightarrow> nat list \<Rightarrow> py_error + fval list list" where
  "MeanEmbedding_forward emb lens =
     (let sumed_emb = map sum_dim1 emb
      in if length lens = length sumed_emb
         then Inr (map2 (\<lambda>row l. map (\<lambda>v. fdiv v (to_float l)) row) sumed_emb lens)
         else if length lens = 1
         then Inr (map (\<lambda>row. map (\<lambda>v. fdiv v (to_float (hd lens))) row) sumed_emb)
         else Inl RuntimeError)"



subsection \<open>\<open>EmbeddingConstruction.forward\<close>\<close>

text \<open>
  \<^verbatim>\<open>WordEmbedding.forward\<close> (line 336) looks every word index up in
  the table; an index outside the table raises \<^verbatim>\<open>IndexError\<close>.  The
  input tensor has one row of word indices per item.
\<close>

definition embedding_lookup :: "'a list list \<Rightarrow> nat list list \<Rightarrow> py_error + 'a list list list" where
  "embedding_lookup W input_tensor =
     (if list_all (list_all (\<lambda>w. w < length W)) input_tensor
      then Inr (map (map (\<lambda>w. W ! w)) input_tensor)
      else Inl IndexError)"

text \<open>
  The call \<^verbatim>\<open>word_emb_layer(input_tensor)\<close> of line 187.
  \<^verbatim>\<open>BertEmbedding.forward\<close> (lines 345 and 346) is a stub that takes no
  input and raises \<^verbatim>\<open>NotImplementedError\<close>; called with the input
  tensor it fails with a \<^verbatim>\<open>TypeError\<close> for the extra argument.
\<close>

definition word_emb_layer_call ::
  "'a word_emb_layer \<Rightarrow> nat list list \<Rightarrow> py_error + 'a list list list" where
  "word_emb_layer_call layer input_tensor =
     (case layer of
        WordEmbedding W \<Rightarrow> embedding_lookup W input_tensor
      | BertEmbedding _ \<Rightarrow> Inl TypeError)"

text \<open>Lines 185 to 187: the layers are applied in the order of registration.\<close>

fun apply_layers ::
  "'a word_emb_layer list \<Rightarrow> nat list list \<Rightarrow> py_error + 'a list list list list" where
  "apply_layers [] input_tensor = Inr []"
| "apply_layers (layer # layers) input_tensor =
     (case word_emb_layer_call layer input_tensor of
        Inl e \<Rightarrow> Inl e
      | Inr f \<Rightarrow>
         (case apply_layers layers input_tensor of
            Inl e \<Rightarrow> Inl e
          | Inr fs \<Rightarrow> Inr (f # fs)))"

text \<open>
  \<^verbatim>\<open>torch.cat(feat, dim=-1)\<close>: the feature vectors at the same position
  are appended; an empty list of tensors raises \<^verbatim>\<open>RuntimeError\<close>.
\<close>

definition torch_cat_last :: "'a list list list list \<Rightarrow> py_error + 'a list list list" where
  "torch_cat_last ts =
     (case ts of
        [] \<Rightarrow> Inl RuntimeError
      | t # rest \<Rightarrow> Inr (foldl (map2 (map2 (@))) t rest))"

text \<open>Lines 185 to 189.\<close>

definition word_features ::
  "'a word_emb_layer list \<Rightarrow> nat list list \<Rightarrow> py_error + 'a list list list" where
  "word_features layers input_tensor =
     (case apply_layers layers input_tensor of
        Inl e \<Rightarrow> Inl e
      | Inr feat \<Rightarrow> torch_cat_last feat)"

text \<open>
  Lines 193 to 195.  For the recurrent strategies the layer returns a pair
  and \<^verbatim>\<open>feat[-1]\<close> is its second component, the final hidden states.
\<close>

definition node_edge_emb ::
  "rnn node_edge_emb_layer \<Rightarrow> fval list list list \<Rightarrow> nat list \<Rightarrow> py_error + fval list list" where
  "node_edge_emb layer feat item_size =
     (case layer of
        MeanEmbedding \<Rightarrow> MeanEmbedding_forward feat item_size
      | RNNLayer r \<Rightarrow> map_sum id snd (RNNEmbedding_forward r feat item_size))"

text \<open>\<^verbatim>\<open>torch.max(num_items)\<close> raises on an empty tensor.\<close>

definition torch_max :: "nat list \<Rightarrow> py_error + nat" where
  "torch_max v = (if v = [] then Inl RuntimeError else Inr (Max (set v)))"

text \<open>\<^verbatim>\<open>t.shape[1]\<close> of a matrix.\<close>

definition ncols :: "'a list list \<Rightarrow> nat" where
  "ncols t = (case t of [] \<Rightarrow> 0 | r # _ \<Rightarrow> length r)"

text \<open>
  Lines 202 to 210, the loop over the graphs of the batch: graph \<open>i\<close>
  takes the next \<^verbatim>\<open>num_items[i]\<close> rows and is filled with zero rows up
  to \<^verbatim>\<open>max_num_items\<close>.
\<close>

fun unbatching :: "fval list list \<Rightarrow> nat \<Rightarrow> nat \<Rightarrow> nat list \<Rightarrow> fval list list list" where
  "unbatching feat max_num_items start_idx [] = []"
| "unbatching feat max_num_items start_idx (n # ns) =
     (let tmp_feat = take n (drop start_idx feat);
          tmp_feat = (if n < max_num_items
                      then tmp_feat @ zeros (max_num_items - n) (ncols feat)
                      else tmp_feat)
      in tmp_feat # unbatching feat max_num_items (start_idx + n) ns)"

text \<open>
  \<^verbatim>\<open>torch.stack(new_feat, 0)\<close> raises \<^verbatim>\<open>RuntimeError\<close> unless all
  blocks have the same number of rows.
\<close>

definition torch_stack :: "'a list list \<Rightarrow> py_error + 'a list list" where
  "torch_stack ts =
     (case ts of
        [] \<Rightarrow> Inl RuntimeError
      | t # rest \<Rightarrow>
          if list_all (\<lambda>u. length u = length t) rest then Inr ts else Inl RuntimeError)"

text \<open>
  Lines 200 to 225: the blocks are stacked, encoded, and every block is cut
  back to its own number of items (\<^verbatim>\<open>new_feat[0]\<close> is the first
  component of the encoder's result).
\<close>

definition seq_info_encode ::
  "rnn RNNEmbedding \<Rightarrow> fval list list \<Rightarrow> nat list \<Rightarrow> py_error + fval list list" where
  "seq_info_encode enc feat num_items =
     (case torch_max num_items of
        Inl e \<Rightarrow> Inl e
      | Inr max_num_items \<Rightarrow>
     (case torch_stack (unbatching feat max_num_items 0 num_items) of
        Inl e \<Rightarrow> Inl e
      | Inr new_feat \<Rightarrow>
     (case RNNEmbedding_forward enc new_feat num_items of
        Inl e \<Rightarrow> Inl e
      | Inr (hh, h_t) \<Rightarrow> Inr (concat (map2 (\<lambda>block n. take n block) hh num_items)))))"

text \<open>
  Lines 165 to 225.  The constructor pairs each strategy name with its
  layer, so the tests on the strategy names (lines 194 and 215) are written
  as the cases of the layers.
\<close>

definition EmbeddingConstruction_forward ::
  "(fval, rnn) EmbeddingConstruction \<Rightarrow> nat list list \<Rightarrow> nat list \<Rightarrow> nat list \<Rightarrow>
   py_error + fval list list" where
  "EmbeddingConstruction_forward ec input_tensor item_size num_items =
     (case word_features (word_emb_layers ec) input_tensor of
        Inl e \<Rightarrow> Inl e
      | Inr feat \<Rightarrow>
     (case node_edge_emb (node_edge_emb_layer ec) feat item_size of
        Inl e \<Rightarrow> Inl e
      | Inr feat \<Rightarrow>
     (case seq_info_encode_layer ec of
        None \<Rightarrow> Inr feat
      | Some enc \<Rightarrow> seq_info_encode enc feat num_items)))"

text \<open>The table of a lookup layer, for the statements about the features.\<close>

definition lookup_table :: "'a word_emb_layer \<Rightarrow> 'a list list" where
  "lookup_table layer = (case layer of WordEmbedding W \<Rightarrow> W | BertEmbedding _ \<Rightarrow> [])"

section \<open>The CoNLL example: \<open>ConllDataset.build_topology\<close>\<close>

text \<open>
  \<^verbatim>\<open>conll.py\<close> does not parse as it stands: colons follow the class
  names at lines 76, 91, 157 and 193, line 178 starts with \<^verbatim>\<open>==\<close>, and
  the indentation from line 114 on does not match the statements above it.
  The embedding reads every statement without the stray colon and takes the
  blocks in the order in which they are written: the chain of lines 75 to
  112, then the static loop of lines 114 to 139, and on its own the block
  of lines 151 to 222 for \<^verbatim>\<open>dynamic_graph_type == "node_emb_refined"\<close>.
  How the source meant to choose between the static and the dynamic part
  cannot be read off the file.

  The topology builders are external classes; what is recorded of them is
  which one is called with which arguments.
\<close>

datatype builder_class =
  DependencyBasedGraphConstruction_without_tokenizer
  | LineBasedGraphConstruction
  | ConstituencyBasedGraphConstruction
  | IEBasedGraphConstruction

text \<open>
  \<^verbatim>\<open>self.topology_builder\<close> is \<^verbatim>\<open>None\<close>, a string or a class.
\<close>

datatype builder_value = NoBuilder | BuilderName string | BuilderClass builder_class

text \<open>The client \<^verbatim>\<open>stanfordcorenlp.StanfordCoreNLP(url, port=, timeout=)\<close>.\<close>

datatype processor = StanfordCoreNLP string nat nat

text \<open>
  The dictionaries of annotator properties written in the source: the one
  for dependency parsing (lines 82 to 89, 93 to 100 and 184 to 191), the one
  for constituency parsing (lines 103 to 110 and 194 to 201) and the pair for
  coreference and open information extraction (lines 158 to 175).
\<close>

datatype processor_args =
  DepparseArgs | ConstituencyArgs | CorefOpenieArgs

text \<open>A local variable of the method is unbound until a branch assigns it.\<close>

datatype 'a local_var = Unbound | Bound 'a

record ConllDataset =
  graph_type :: string
  topology_builder :: builder_value
  dynamic_init_graph_type :: "string option"
  dynamic_init_topology_builder :: builder_value
  lower_case :: bool
  tokenizer :: string
  merge_strategy :: "string option"
  edge_strategy :: "string option"

text \<open>The dictionaries of lines 114 to 122 and 206 to 214.\<close>

record aux_args =
  aux_lower_case :: bool
  aux_tokenizer :: string
  aux_merge_strategy :: "string option"
  aux_edge_strategy :: "string option"
  aux_verbose :: bool
  aux_nlp_processor :: "processor option"
  aux_processor_args :: "processor_args option"

text \<open>
  The calls of lines 125 to 128, 132 to 138 and 216 to 220, with the builder
  they are made on.
\<close>

datatype topology_call =
  TopologyAux builder_value string aux_args
  | TopologyArgs builder_value string "string option" "string option"
      "processor option" "processor_args option"
  | InitTopology builder_value string builder_value aux_args


text \<open>
  Lines 75 to 112.  The first test reads \<^verbatim>\<open>self.graph_type\<close>, the two
  \<^verbatim>\<open>elif\<close> tests read \<^verbatim>\<open>self.topology_builder\<close>.  The constituency
  branch assigns no \<^verbatim>\<open>processor\<close>.
\<close>

definition select_topology_builder ::
  "ConllDataset \<Rightarrow>
   py_error + (ConllDataset \<times> processor option local_var \<times> processor_args)" where
  "select_topology_builder self =
     (if graph_type self = ''dependency'' then
        Inr (self\<lparr>topology_builder :=
                    BuilderClass DependencyBasedGraphConstruction_without_tokenizer\<rparr>,
             Bound (Some (StanfordCoreNLP ''http://localhost'' 9000 1000)),
             DepparseArgs)
      else if topology_builder self = BuilderName ''line'' then
        Inr (self\<lparr>topology_builder := BuilderClass LineBasedGraphConstruction\<rparr>,
             Bound None,
             DepparseArgs)
      else if topology_builder self = BuilderName ''constituency'' then
        Inr (self\<lparr>topology_builder := BuilderClass ConstituencyBasedGraphConstruction\<rparr>,
             Unbound,
             ConstituencyArgs)
      else Inl NotImplementedError)"

text \<open>Reading an unbound local raises \<^verbatim>\<open>UnboundLocalError\<close>.\<close>

definition read_local :: "'a local_var \<Rightarrow> py_error + 'a" where
  "read_local v = (case v of Unbound \<Rightarrow> Inl UnboundLocalError | Bound a \<Rightarrow> Inr a)"

definition make_aux_args ::
  "ConllDataset \<Rightarrow> processor option local_var \<Rightarrow> processor_args option local_var \<Rightarrow>
   py_error + aux_args" where
  "make_aux_args self processor pargs =
     (case read_local processor of
        Inl e \<Rightarrow> Inl e
      | Inr p \<Rightarrow>
         (case read_local pargs of
            Inl e \<Rightarrow> Inl e
          | Inr a \<Rightarrow>
              Inr \<lparr>aux_lower_case = lower_case self, aux_tokenizer = tokenizer self,
                   aux_merge_strategy = merge_strategy self,
                   aux_edge_strategy = edge_strategy self, aux_verbose = False,
                   aux_nlp_processor = p, aux_processor_args = a\<rparr>))"

text \<open>Lines 75 to 139: one call per data item, in order.\<close>

definition build_topology_static ::
  "ConllDataset \<Rightarrow> string list \<Rightarrow> py_error + (ConllDataset \<times> topology_call list)" where
  "build_topology_static self data_items =
     (case select_topology_builder self of
        Inl e \<Rightarrow> Inl e
      | Inr (self1, processor, pargs) \<Rightarrow>
         (case make_aux_args self1 processor (Bound (Some pargs)) of
            Inl e \<Rightarrow> Inl e
          | Inr aux \<Rightarrow>
              if topology_builder self1 =
                   BuilderClass DependencyBasedGraphConstruction_without_tokenizer
              then Inr (self1, map (\<lambda>input_text.
                          TopologyAux (topology_builder self1) input_text aux) data_items)
              else Inr (self1, map (\<lambda>input_text.
                          TopologyArgs (topology_builder self1) input_text
                            (merge_strategy self1) (edge_strategy self1) None None) data_items)))"


text \<open>A dataset with the defaults of the constructor and the line graph type.\<close>

definition example_dataset :: ConllDataset where
  "example_dataset =
     \<lparr>graph_type = ''line'', topology_builder = NoBuilder,
      dynamic_init_graph_type = None, dynamic_init_topology_builder = NoBuilder,
      lower_case = True, tokenizer = ''word_tokenize'',
      merge_strategy = None, edge_strategy = None\<rparr>"

section \<open>Properties\<close>

subsection \<open>The checks of the constructor\<close>

lemma RNNEmbedding_init_even:
  assumes nn: "\<forall>t i hs b. \<exists>net. nn t i hs b = Inr net"
    and rt: "rt = ''lstm'' \<or> rt = ''gru''"
    and ev: "bd \<longrightarrow> h mod 2 = 0"
  shows "\<exists>r. RNNEmbedding_init nn i (Some h) bd rt = Inr r"
proof -
  define t where "t = (if rt = ''lstm'' then ''lstm'' else ''gru'')"
  define hs where "hs = (if bd then Some (h div 2) else Some h)"
  from nn have "\<exists>net. nn t i hs bd = Inr net" by (elim allE)
  then obtain n where n: "nn t i hs bd = Inr n" ..
  have "RNNEmbedding_init nn i (Some h) bd rt =
        Inr \<lparr>rnn_type = rt, hidden_size = hs, num_directions = (if bd then 2 else 1), model = n\<rparr>"
    unfolding RNNEmbedding_init_def using n rt ev
    by (cases bd) (simp_all add: t_def [symmetric] hs_def Let_def)
  then show ?thesis ..
qed

lemma RNNEmbedding_init_odd:
  assumes "rt = ''lstm'' \<or> rt = ''gru''" and "h mod 2 \<noteq> 0"
  shows "RNNEmbedding_init nn i (Some h) True rt = Inl RuntimeError"
  using assms by (simp add: RNNEmbedding_init_def)

lemma make_ne_ok:
  assumes nn: "\<forall>t i hs b. \<exists>net. nn t i hs b = Inr net"
    and s: "s = ''mean'' \<or> s = ''lstm'' \<or> s = ''bilstm'' \<or> s = ''gru'' \<or> s = ''bigru''"
    and ev: "s = ''bilstm'' \<or> s = ''bigru'' \<longrightarrow> h mod 2 = 0"
  shows "\<exists>l. make_node_edge_emb_layer nn w (Some h) s = Inr l"
proof -
  have A: "\<exists>r. RNNEmbedding_init nn w (Some h) bd rt = Inr r"
    if "rt = ''lstm'' \<or> rt = ''gru''" "bd \<longrightarrow> h mod 2 = 0" for bd rt
    using RNNEmbedding_init_even [OF nn that] .
  from s consider "s = ''mean''" | "s = ''lstm''" | "s = ''bilstm''" | "s = ''gru''" | "s = ''bigru''"
    by fast
  then show ?thesis
  proof cases
    case 1 then show ?thesis by (simp add: make_node_edge_emb_layer_def)
  next
    case 2
    have "\<exists>r. RNNEmbedding_init nn w (Some h) False ''lstm'' = Inr r" by (rule A) simp_all
    then obtain r where "RNNEmbedding_init nn w (Some h) False ''lstm'' = Inr r" ..
    with 2 show ?thesis by (simp add: make_node_edge_emb_layer_def)
  next
    case 3
    with ev have "h mod 2 = 0" by simp
    then have "\<exists>r. RNNEmbedding_init nn w (Some h) True ''lstm'' = Inr r" by (intro A) simp_all
    then obtain r where "RNNEmbedding_init nn w (Some h) True ''lstm'' = Inr r" ..
    with 3 show ?thesis by (simp add: make_node_edge_emb_layer_def)
  next
    case 4
    have "\<exists>r. RNNEmbedding_init nn w (Some h) False ''gru'' = Inr r" by (rule A) simp_all
    then obtain r where "RNNEmbedding_init nn w (Some h) False ''gru'' = Inr r" ..
    with 4 show ?thesis by (simp add: make_node_edge_emb_layer_def)
  next
    case 5
    with ev have "h mod 2 = 0" by simp
    then have "\<exists>r. RNNEmbedding_init nn w (Some h) True ''gru'' = Inr r" by (intro A) simp_all
    then obtain r where "RNNEmbedding_init nn w (Some h) True ''gru'' = Inr r" ..
    with 5 show ?thesis by (simp add: make_node_edge_emb_layer_def)
  qed
qed

lemma make_ne_odd:
  assumes "s = ''bilstm'' \<or> s = ''bigru''" and "h mod 2 \<noteq> 0"
  shows "make_node_edge_emb_layer nn w (Some h) s = Inl RuntimeError"
proof -
  have "RNNEmbedding_init nn w (Some h) True ''lstm'' = Inl RuntimeError"
       "RNNEmbedding_init nn w (Some h) True ''gru'' = Inl RuntimeError"
    using assms(2) by (simp_all add: RNNEmbedding_init_odd)
  with assms(1) show ?thesis
    by (elim disjE) (simp_all add: make_node_edge_emb_layer_def)
qed

lemma make_ne_unknown:
  assumes "\<not> (s = ''mean'' \<or> s = ''lstm'' \<or> s = ''bilstm'' \<or> s = ''gru'' \<or> s = ''bigru'')"
  shows "make_node_edge_emb_layer nn w hdn s = Inl RuntimeError"
  using assms by (simp add: make_node_edge_emb_layer_def)

lemma make_seq_unknown:
  assumes "\<not> (s = ''none'' \<or> s = ''lstm'' \<or> s = ''bilstm'' \<or> s = ''gru'' \<or> s = ''bigru'')"
  shows "make_seq_info_encode_layer nn w hdn ne s = Inl RuntimeError"
  using assms by (simp add: make_seq_info_encode_layer_def)

lemma make_seq_ok:
  assumes nn: "\<forall>t i hs b. \<exists>net. nn t i hs b = Inr net"
    and s: "s = ''none'' \<or> s = ''lstm'' \<or> s = ''bilstm'' \<or> s = ''gru'' \<or> s = ''bigru''"
    and ev: "s = ''bilstm'' \<or> s = ''bigru'' \<longrightarrow> h mod 2 = 0"
  shows "\<exists>l. make_seq_info_encode_layer nn w (Some h) ne s = Inr l"
proof -
  define i where "i = (if ne = ''mean'' then w else h)"
  have sz: "seq_input_size w (Some h) ne = Inr i"
    by (simp add: seq_input_size_def i_def)
  have A: "\<exists>r. RNNEmbedding_init nn i (Some h) bd rt = Inr r"
    if "rt = ''lstm'' \<or> rt = ''gru''" "bd \<longrightarrow> h mod 2 = 0" for bd rt
    using RNNEmbedding_init_even [OF nn that] .
  from s consider "s = ''none''" | "s = ''lstm''" | "s = ''bilstm''" | "s = ''gru''" | "s = ''bigru''"
    by fast
  then show ?thesis
  proof cases
    case 1 then show ?thesis by (simp add: make_seq_info_encode_layer_def)
  next
    case 2
    have "\<exists>r. RNNEmbedding_init nn i (Some h) False ''lstm'' = Inr r" by (rule A) simp_all
    then obtain r where "RNNEmbedding_init nn i (Some h) False ''lstm'' = Inr r" ..
    with 2 sz show ?thesis by (simp add: make_seq_info_encode_layer_def)
  next
    case 3
    with ev have "h mod 2 = 0" by simp
    then have "\<exists>r. RNNEmbedding_init nn i (Some h) True ''lstm'' = Inr r" by (intro A) simp_all
    then obtain r where "RNNEmbedding_init nn i (Some h) True ''lstm'' = Inr r" ..
    with 3 sz show ?thesis by (simp add: make_seq_info_encode_layer_def)
  next
    case 4
    have "\<exists>r. RNNEmbedding_init nn i (Some h) False ''gru'' = Inr r" by (rule A) simp_all
    then obtain r where "RNNEmbedding_init nn i (Some h) False ''gru'' = Inr r" ..
    with 4 sz show ?thesis by (simp add: make_seq_info_encode_layer_def)
  next
    case 5
    with ev have "h mod 2 = 0" by simp
    then have "\<exists>r. RNNEmbedding_init nn i (Some h) True ''gru'' = Inr r" by (intro A) simp_all
    then obtain r where "RNNEmbedding_init nn i (Some h) True ''gru'' = Inr r" ..
    with 5 sz show ?thesis by (simp add: make_seq_info_encode_layer_def)
  qed
qed

lemma make_seq_odd:
  assumes "s = ''bilstm'' \<or> s = ''bigru''" and "h mod 2 \<noteq> 0"
  shows "make_seq_info_encode_layer nn w (Some h) ne s = Inl RuntimeError"
proof -
  define i where "i = (if ne = ''mean'' then w else h)"
  have sz: "seq_input_size w (Some h) ne = Inr i"
    by (simp add: seq_input_size_def i_def)
  have "RNNEmbedding_init nn i (Some h) True ''lstm'' = Inl RuntimeError"
       "RNNEmbedding_init nn i (Some h) True ''gru'' = Inl RuntimeError"
    using assms(2) by (simp_all add: RNNEmbedding_init_odd)
  with assms(1) sz show ?thesis
    by (elim disjE) (simp_all add: make_seq_info_encode_layer_def)
qed

lemma init_unfold:
  "EmbeddingConstruction_init nn emb wt ne sq hdn fx =
     (case make_node_edge_emb_layer nn (shape1 emb) hdn ne of
        Inl e \<Rightarrow> Inl e
      | Inr ne_layer \<Rightarrow>
         (case make_seq_info_encode_layer nn (shape1 emb) hdn ne sq of
            Inl e \<Rightarrow> Inl e
          | Inr seq_layer \<Rightarrow>
              Inr \<lparr>node_edge_emb_strategy = ne,
                   seq_info_encode_strategy = sq,
                   word_emb_layers =
                     (if ''w2v'' \<in> set (as_list wt) then [WordEmbedding emb] else []) @
                     (if ''bert'' \<in> set (as_list wt) then [BertEmbedding fx] else []),
                   node_edge_emb_layer = ne_layer,
                   seq_info_encode_layer = seq_layer\<rparr>))"
  unfolding EmbeddingConstruction_init_def Let_def ..

text \<open>
  Claim C3, as amended.  Let the framework constructors succeed and
  \<^verbatim>\<open>hidden_size\<close> be an integer \<open>h\<close>.  The constructor of
  \<^verbatim>\<open>EmbeddingConstruction\<close> returns an object exactly when
  \<^verbatim>\<open>node_edge_emb_strategy\<close> is one of \<^verbatim>\<open>mean, lstm, bilstm, gru, bigru\<close>,
  \<^verbatim>\<open>seq_info_encode_strategy\<close> is one of \<^verbatim>\<open>none, lstm, bilstm, gru, bigru\<close>,
  and \<open>h\<close> is even whenever one of the two strategies is bidirectional
  (\<^verbatim>\<open>bilstm\<close> or \<^verbatim>\<open>bigru\<close>); in every other case it raises
  \<^verbatim>\<open>RuntimeError\<close>.
\<close>

theorem EmbeddingConstruction_init_strategies:
  assumes nn: "\<forall>t i hs b. \<exists>net. nn t i hs b = Inr net"
  shows "if (ne = ''mean'' \<or> ne = ''lstm'' \<or> ne = ''bilstm'' \<or> ne = ''gru'' \<or> ne = ''bigru'') \<and>
            (sq = ''none'' \<or> sq = ''lstm'' \<or> sq = ''bilstm'' \<or> sq = ''gru'' \<or> sq = ''bigru'') \<and>
            (ne = ''bilstm'' \<or> ne = ''bigru'' \<or> sq = ''bilstm'' \<or> sq = ''bigru'' \<longrightarrow> h mod 2 = 0)
         then \<exists>ec. EmbeddingConstruction_init nn emb wt ne sq (Some h) fx = Inr ec
         else EmbeddingConstruction_init nn emb wt ne sq (Some h) fx = Inl RuntimeError"
proof -
  define NE where "NE \<longleftrightarrow> ne = ''mean'' \<or> ne = ''lstm'' \<or> ne = ''bilstm'' \<or> ne = ''gru'' \<or> ne = ''bigru''"
  define SQ where "SQ \<longleftrightarrow> sq = ''none'' \<or> sq = ''lstm'' \<or> sq = ''bilstm'' \<or> sq = ''gru'' \<or> sq = ''bigru''"
  define NB where "NB \<longleftrightarrow> ne = ''bilstm'' \<or> ne = ''bigru''"
  define SB where "SB \<longleftrightarrow> sq = ''bilstm'' \<or> sq = ''bigru''"
  define E where "E \<longleftrightarrow> h mod 2 = 0"
  let ?I = "EmbeddingConstruction_init nn emb wt ne sq (Some h) fx"
  let ?N = "make_node_edge_emb_layer nn (shape1 emb) (Some h) ne"
  let ?S = "make_seq_info_encode_layer nn (shape1 emb) (Some h) ne sq"
  have 1: "?N = Inl RuntimeError" if "\<not> NE"
    using that unfolding NE_def by (rule make_ne_unknown)
  have 2: "?N = Inl RuntimeError" if "NB" "\<not> E"
    using that unfolding NB_def E_def by (rule make_ne_odd)
  have 3: "\<exists>l. ?N = Inr l" if "NE" "NB \<longrightarrow> E"
    using that unfolding NE_def NB_def E_def by (rule make_ne_ok [OF nn])
  have 4: "?S = Inl RuntimeError" if "\<not> SQ"
    using that unfolding SQ_def by (rule make_seq_unknown)
  have 5: "?S = Inl RuntimeError" if "SB" "\<not> E"
    using that unfolding SB_def E_def by (rule make_seq_odd)
  have 6: "\<exists>l. ?S = Inr l" if "SQ" "SB \<longrightarrow> E"
    using that unfolding SQ_def SB_def E_def by (rule make_seq_ok [OF nn])
  have bad_ne: "?I = Inl RuntimeError" if "?N = Inl RuntimeError"
    using that by (simp add: init_unfold)
  have bad_sq: "?I = Inl RuntimeError" if "?N = Inr l" "?S = Inl RuntimeError" for l
    using that by (simp add: init_unfold)
  have good: "\<exists>ec. ?I = Inr ec" if "?N = Inr l" "?S = Inr l'" for l l'
    using that by (simp add: init_unfold)
  have R: "if NE \<and> SQ \<and> (NB \<or> SB \<longrightarrow> E) then \<exists>ec. ?I = Inr ec else ?I = Inl RuntimeError"
  proof (cases "NE \<and> (NB \<longrightarrow> E)")
    case False
    then have "?N = Inl RuntimeError" using 1 2 by blast
    then have "?I = Inl RuntimeError" by (rule bad_ne)
    with False show ?thesis by auto
  next
    case True
    then obtain l where l: "?N = Inr l" using 3 by blast
    show ?thesis
    proof (cases "SQ \<and> (SB \<longrightarrow> E)")
      case False
      then have "?S = Inl RuntimeError" using 4 5 by blast
      with l have "?I = Inl RuntimeError" by (rule bad_sq)
      with False show ?thesis by auto
    next
      case T2: True
      then obtain l' where "?S = Inr l'" using 6 by blast
      with l have "\<exists>ec. ?I = Inr ec" by (rule good)
      with True T2 show ?thesis by auto
    qed
  qed
  have eq: "(ne = ''bilstm'' \<or> ne = ''bigru'' \<or> sq = ''bilstm'' \<or> sq = ''bigru'') = (NB \<or> SB)"
    unfolding NB_def SB_def by blast
  show ?thesis
    using R unfolding eq unfolding NE_def SQ_def E_def .
qed

theorem EmbeddingConstruction_init_strategies_witness:
  "(\<exists>ec. EmbeddingConstruction_init (\<lambda>t i hs b. Inr (0::nat)) [[1::int, 2]] (Str ''w2v'')
           ''bilstm'' ''gru'' (Some 4) True = Inr ec) \<and>
   EmbeddingConstruction_init (\<lambda>t i hs b. Inr (0::nat)) [[1::int, 2]] (Str ''w2v'')
           ''bilstm'' ''attention'' (Some 4) True = Inl RuntimeError"
proof -
  have nn: "\<forall>t i hs b. \<exists>net. (\<lambda>t i hs b. Inr (0::nat) :: py_error + nat) t i hs b = Inr net"
    by simp
  show ?thesis
    using EmbeddingConstruction_init_strategies [OF nn, of "''bilstm''" "''gru''" 4 "[[1, 2]]" "Str ''w2v''" True]
      EmbeddingConstruction_init_strategies [OF nn, of "''bilstm''" "''attention''" 4 "[[1, 2]]" "Str ''w2v''" True]
    by simp
qed

text \<open>
  Claim C3 as stated fails: \<^verbatim>\<open>bilstm\<close> and \<^verbatim>\<open>none\<close> are accepted
  strategies, yet with \<^verbatim>\<open>hidden_size=3\<close> the constructor raises
  \<^verbatim>\<open>RuntimeError\<close> (line 405: the hidden size must be even in the
  bidirectional mode).
\<close>

theorem EmbeddingConstruction_init_odd_hidden_size:
  "EmbeddingConstruction_init (\<lambda>t i hs b. Inr (0::nat)) [[1::int, 2]] (Str ''w2v'')
      ''bilstm'' ''none'' (Some 3) True = Inl RuntimeError"
  by (simp add: init_unfold make_node_edge_emb_layer_def RNNEmbedding_init_def)

subsection \<open>Sorting and restoring the order in \<open>RNNEmbedding.forward\<close>\<close>

lemma sort_desc_indx_mset: "mset (snd (torch_sort_desc v)) = mset [0..<length v]"
  by (simp add: torch_sort_desc_def Let_def)

lemma sort_desc_indx_set: "set (snd (torch_sort_desc v)) = {0..<length v}"
  by (simp add: torch_sort_desc_def Let_def)

lemma sort_desc_indx_length: "length (snd (torch_sort_desc v)) = length v"
  by (simp add: torch_sort_desc_def Let_def)

lemma sort_desc_values: "fst (torch_sort_desc v) = map (\<lambda>i. v ! i) (snd (torch_sort_desc v))"
  by (simp add: torch_sort_desc_def Let_def)

lemma sort_desc_sorted: "sorted (rev (fst (torch_sort_desc v)))"
proof -
  let ?indx = "sort_key (\<lambda>i. - int (v ! i)) [0..<length v]"
  have "sorted (map (\<lambda>i. - int (v ! i)) ?indx)" by (rule sorted_sort_key)
  then have "sorted_wrt (\<lambda>i j. v ! j \<le> v ! i) ?indx"
    by (simp add: sorted_wrt_map)
  then have "sorted_wrt (\<lambda>a b. b \<le> a) (map (\<lambda>i. v ! i) ?indx)"
    by (simp add: sorted_wrt_map)
  then have "sorted (rev (map (\<lambda>i. v ! i) ?indx))"
    by (simp add: sorted_wrt_rev)
  then show ?thesis by (simp add: torch_sort_desc_def Let_def)
qed

lemma sort_inverse:
  assumes "mset indx = mset [0..<n]"
  shows "map (\<lambda>j. indx ! j) (snd (torch_sort indx)) = [0..<n]"
proof -
  have len: "length indx = n" using assms by (metis length_upt mset_eq_length minus_nat.diff_0)
  let ?inv = "sort_key (\<lambda>j. indx ! j) [0..<length indx]"
  have s: "sorted (map (\<lambda>j. indx ! j) ?inv)" by (rule sorted_sort_key)
  have "mset (map (\<lambda>j. indx ! j) ?inv) = image_mset (\<lambda>j. indx ! j) (mset [0..<length indx])"
    by simp
  also have "\<dots> = mset (map (\<lambda>j. indx ! j) [0..<length indx])" by simp
  also have "\<dots> = mset indx" by (simp add: map_nth)
  finally have m: "mset (map (\<lambda>j. indx ! j) ?inv) = mset [0..<n]" using assms by simp
  have "sort [0..<n] = map (\<lambda>j. indx ! j) ?inv"
    using m s by (rule properties_for_sort)
  then show ?thesis by (simp add: torch_sort_def Let_def)
qed

lemma sort_inverse_set:
  "set (snd (torch_sort indx)) = {0..<length indx}"
  by (simp add: torch_sort_def Let_def)

lemma sort_inverse_length:
  "length (snd (torch_sort indx)) = length indx"
  by (simp add: torch_sort_def Let_def)

text \<open>Gathering with a permutation and then with its inverse is the identity.\<close>

lemma restore_rows:
  assumes "mset indx = mset [0..<n]"
  shows "map (\<lambda>j. map f indx ! j) (snd (torch_sort indx)) = map f [0..<n]"
proof -
  have len: "length indx = n" using assms by (metis length_upt mset_eq_length minus_nat.diff_0)
  let ?inv = "snd (torch_sort indx)"
  have in_range: "\<forall>j \<in> set ?inv. j < length indx"
    by (simp add: sort_inverse_set)
  have "map (\<lambda>j. map f indx ! j) ?inv = map (\<lambda>j. f (indx ! j)) ?inv"
    using in_range by (intro map_cong) auto
  also have "\<dots> = map f (map (\<lambda>j. indx ! j) ?inv)" by simp
  also have "\<dots> = map f [0..<n]" using sort_inverse [OF assms] by simp
  finally show ?thesis .
qed

lemma index_rows_Inr:
  "index_rows x indx = Inr xs \<longleftrightarrow> (list_all (\<lambda>i. i < length x) indx \<and> xs = map (\<lambda>i. x ! i) indx)"
  by (auto simp: index_rows_def)

lemma pack_Inr:
  assumes "pack_padded_sequence xs ls = Inr p"
  shows "p = map2 take ls xs" and "xs \<noteq> []" and "length ls = length xs"
    and "\<not> list_ex (\<lambda>l. l = 0) ls" and "\<not> list_ex (\<lambda>(l, s). length s < l) (zip ls xs)"
  using assms by (auto simp: pack_padded_sequence_def split: if_splits)

lemma map2_take_indx:
  "map2 take (map (\<lambda>i. v ! i) indx) (map (\<lambda>i. x ! i) indx) = map (\<lambda>i. take (v ! i) (x ! i)) indx"
  by (induction indx) auto

lemma forward_Inr:
  assumes R: "RNNEmbedding_forward m x x_len = Inr (hh, ht)"
  defines "n \<equiv> length x_len"
  defines "sq \<equiv> (\<lambda>i. model m (take (x_len ! i) (x ! i)))"
  defines "T \<equiv> Max (set (0 # map (\<lambda>i. length (fst (sq i))) [0..<n]))"
  shows "hh = map (\<lambda>i. fst (sq i) @ zeros (T - length (fst (sq i))) (out_width m)) [0..<n]"
    and "ht = map (\<lambda>i. final_state m (snd (sq i))) [0..<n]"
    and "\<not> (rnn_type m \<noteq> ''lstm'' \<and> num_directions m = 2)"
proof -
  define indx where "indx = snd (torch_sort_desc x_len)"
  have sd: "torch_sort_desc x_len = (map (\<lambda>i. x_len ! i) indx, indx)"
    using sort_desc_values [of x_len] by (simp add: indx_def prod_eq_iff)
  have ms: "mset indx = mset [0..<n]"
    by (simp add: indx_def n_def sort_desc_indx_mset)
  have si: "set indx = {0..<n}"
    by (simp add: indx_def n_def sort_desc_indx_set)
  obtain xs where xs: "index_rows x indx = Inr xs"
    using R by (cases "index_rows x indx") (simp_all add: RNNEmbedding_forward_def sd)
  then have xs_eq: "xs = map (\<lambda>i. x ! i) indx" by (simp add: index_rows_Inr)
  obtain packed where pk: "pack_padded_sequence xs (map (\<lambda>i. x_len ! i) indx) = Inr packed"
    using R xs
    by (cases "pack_padded_sequence xs (map (\<lambda>i. x_len ! i) indx)")
       (simp_all add: RNNEmbedding_forward_def sd)
  have packed: "packed = map (\<lambda>i. take (x_len ! i) (x ! i)) indx"
    using pack_Inr(1) [OF pk] by (simp add: xs_eq map2_take_indx)
  define out where "out = map (model m) packed"
  have out: "out = map sq indx" by (simp add: out_def packed sq_def)
  define pht where "pht = map (\<lambda>i. final_state m (snd (sq i))) indx"
  define hh0 where "hh0 = pad_packed_sequence (out_width m) (map fst out)"
  define ivs where "ivs = snd (torch_sort indx)"
  have R': "RNNEmbedding_forward m x x_len =
     (case (if rnn_type m = ''lstm''
                  then (if num_directions m = 2
                        then Inr (map (cat_directions \<circ> snd) out)
                        else Inr (map (squeeze0 \<circ> snd) out))
                  else (if num_directions m = 2
                        then Inl NameError
                        else Inr (map (squeeze0 \<circ> snd) out))) of
              Inl e \<Rightarrow> Inl e
            | Inr packed_h_t \<Rightarrow>
           (case index_rows hh0 ivs of
                 Inl e \<Rightarrow> Inl e
               | Inr restore_hh \<Rightarrow>
                  (case index_rows packed_h_t ivs of
                     Inl e \<Rightarrow> Inl e
                   | Inr restore_packed_h_t \<Rightarrow> Inr (restore_hh, restore_packed_h_t))))"
    unfolding hh0_def ivs_def out_def RNNEmbedding_forward_def sd
    by (simp add: xs pk Let_def)
  show nb: "\<not> (rnn_type m \<noteq> ''lstm'' \<and> num_directions m = 2)"
    using R unfolding R' by (auto split: if_splits)
  then have br: "(if rnn_type m = ''lstm''
                  then (if num_directions m = 2
                        then Inr (map (cat_directions \<circ> snd) out)
                        else Inr (map (squeeze0 \<circ> snd) out))
                  else (if num_directions m = 2
                        then Inl NameError
                        else Inr (map (squeeze0 \<circ> snd) out))) = Inr pht"
    by (auto simp: pht_def out final_state_def)
  have R'': "(case index_rows hh0 ivs of
                 Inl e \<Rightarrow> Inl e
               | Inr restore_hh \<Rightarrow>
                  (case index_rows pht ivs of
                     Inl e \<Rightarrow> Inl e
                   | Inr restore_packed_h_t \<Rightarrow> Inr (restore_hh, restore_packed_h_t))) = Inr (hh, ht)"
    using R unfolding R' br by simp
  have hh: "hh = map (\<lambda>j. hh0 ! j) ivs" and ht: "ht = map (\<lambda>j. pht ! j) ivs"
    using R'' by (auto simp: index_rows_def split: if_splits sum.splits)
  have T: "Max (set (0 # map length (map fst out))) = T"
    by (simp add: T_def out si image_image)
  have hh0: "hh0 = map (\<lambda>i. fst (sq i) @ zeros (T - length (fst (sq i))) (out_width m)) indx"
    unfolding hh0_def pad_packed_sequence_def T Let_def by (simp add: out)
  show "hh = map (\<lambda>i. fst (sq i) @ zeros (T - length (fst (sq i))) (out_width m)) [0..<n]"
    unfolding hh hh0 ivs_def by (rule restore_rows [OF ms])
  show "ht = map (\<lambda>i. final_state m (snd (sq i))) [0..<n]"
    unfolding ht pht_def ivs_def by (rule restore_rows [OF ms])
qed

lemma list_all_indx: "set indx = {0..<n} \<Longrightarrow> n \<le> length x \<Longrightarrow> list_all (\<lambda>i. i < length x) indx"
  by (auto simp: list_all_iff)

lemma pack_ok:
  assumes si: "set indx = {0..<n}" and n: "0 < n" "n = length x_len"
    and pos: "\<forall>i<n. 0 < x_len ! i \<and> x_len ! i \<le> length (x ! i)"
    and srt: "sorted (rev (map (\<lambda>i. x_len ! i) indx))"
  shows "pack_padded_sequence (map (\<lambda>i. x ! i) indx) (map (\<lambda>i. x_len ! i) indx) =
         Inr (map (\<lambda>i. take (x_len ! i) (x ! i)) indx)"
proof -
  have ne: "indx \<noteq> []" using si n by auto
  have z: "\<not> list_ex (\<lambda>l. l = 0) (map (\<lambda>i. x_len ! i) indx)"
    using si pos by (auto simp: list_ex_iff)
  have zp: "zip (map (\<lambda>i. x_len ! i) indx) (map (\<lambda>i. x ! i) indx) = map (\<lambda>i. (x_len ! i, x ! i)) indx"
    by (induction indx) auto
  have e: "\<not> list_ex (\<lambda>(l, s). length s < l) (zip (map (\<lambda>i. x_len ! i) indx) (map (\<lambda>i. x ! i) indx))"
    unfolding zp using si pos by (auto simp: list_ex_iff)
  show ?thesis
    unfolding pack_padded_sequence_def using ne z e srt
    by (simp add: map2_take_indx)
qed

lemma forward_unfold:
  assumes "torch_sort_desc x_len = (sl, indx)" "index_rows x indx = Inr xs"
    "pack_padded_sequence xs sl = Inr packed" "out = map (model m) packed"
    "hh0 = pad_packed_sequence (out_width m) (map fst out)" "ivs = snd (torch_sort indx)"
  shows "RNNEmbedding_forward m x x_len =
     (case (if rnn_type m = ''lstm''
                  then (if num_directions m = 2
                        then Inr (map (cat_directions \<circ> snd) out)
                        else Inr (map (squeeze0 \<circ> snd) out))
                  else (if num_directions m = 2
                        then Inl NameError
                        else Inr (map (squeeze0 \<circ> snd) out))) of
              Inl e \<Rightarrow> Inl e
            | Inr packed_h_t \<Rightarrow>
           (case index_rows hh0 ivs of
                 Inl e \<Rightarrow> Inl e
               | Inr restore_hh \<Rightarrow>
                  (case index_rows packed_h_t ivs of
                     Inl e \<Rightarrow> Inl e
                   | Inr restore_packed_h_t \<Rightarrow> Inr (restore_hh, restore_packed_h_t))))"
  unfolding assms(4,5,6) RNNEmbedding_forward_def assms(1)
  by (simp add: assms(2,3) Let_def)

lemma forward_total:
  assumes ne: "x_len \<noteq> []" and len: "length x_len \<le> length x"
    and pos: "\<forall>i<length x_len. 0 < x_len ! i \<and> x_len ! i \<le> length (x ! i)"
  shows "if rnn_type m \<noteq> ''lstm'' \<and> num_directions m = 2
         then RNNEmbedding_forward m x x_len = Inl NameError
         else (\<exists>r. RNNEmbedding_forward m x x_len = Inr r)"
proof -
  define n where "n = length x_len"
  define indx where "indx = snd (torch_sort_desc x_len)"
  have sd: "torch_sort_desc x_len = (map (\<lambda>i. x_len ! i) indx, indx)"
    using sort_desc_values [of x_len] by (simp add: indx_def prod_eq_iff)
  have si: "set indx = {0..<n}"
    by (simp add: indx_def n_def sort_desc_indx_set)
  have li: "length indx = n"
    by (simp add: indx_def n_def sort_desc_indx_length)
  have xs: "index_rows x indx = Inr (map (\<lambda>i. x ! i) indx)"
    using list_all_indx [OF si] len by (simp add: index_rows_def n_def)
  have srt: "sorted (rev (map (\<lambda>i. x_len ! i) indx))"
    using sort_desc_sorted [of x_len] by (simp add: sd)
  have pk: "pack_padded_sequence (map (\<lambda>i. x ! i) indx) (map (\<lambda>i. x_len ! i) indx) =
         Inr (map (\<lambda>i. take (x_len ! i) (x ! i)) indx)"
    by (rule pack_ok [OF si _ n_def _ srt]) (use ne pos in \<open>simp_all add: n_def\<close>)
  define out where "out = map (model m) (map (\<lambda>i. take (x_len ! i) (x ! i)) indx)"
  define hh0 where "hh0 = pad_packed_sequence (out_width m) (map fst out)"
  define ivs where "ivs = snd (torch_sort indx)"
  note U = forward_unfold [OF sd xs pk out_def hh0_def ivs_def]
  have ivs: "list_all (\<lambda>j. j < n) ivs"
    by (simp add: ivs_def list_all_iff sort_inverse_set li)
  have i1: "index_rows ys ivs = Inr (map (\<lambda>j. ys ! j) ivs)" if "length ys = n" for ys :: "'b list"
    using ivs that by (simp add: index_rows_def)
  have l0: "length out = n" by (simp add: out_def li)
  have l1: "length hh0 = n"
    by (simp add: hh0_def pad_packed_sequence_def Let_def l0)
  show ?thesis
  proof (cases "rnn_type m \<noteq> ''lstm'' \<and> num_directions m = 2")
    case True
    then show ?thesis unfolding U by simp
  next
    case False
    define pht where "pht = map ((if num_directions m = 2 then cat_directions else squeeze0) \<circ> snd) out"
    have br: "(if rnn_type m = ''lstm''
                  then (if num_directions m = 2
                        then Inr (map (cat_directions \<circ> snd) out)
                        else Inr (map (squeeze0 \<circ> snd) out))
                  else (if num_directions m = 2
                        then Inl NameError
                        else Inr (map (squeeze0 \<circ> snd) out))) = Inr pht"
      using False by (auto simp: pht_def)
    have l2: "length pht = n" by (simp add: pht_def l0)
    have "RNNEmbedding_forward m x x_len = Inr (map (\<lambda>j. hh0 ! j) ivs, map (\<lambda>j. pht ! j) ivs)"
      unfolding U br by (simp add: i1 [OF l1] i1 [OF l2])
    with False show ?thesis by simp
  qed
qed

lemma forward_Inr_ref:
  assumes "RNNEmbedding_forward m x x_len = Inr r"
  shows "r = forward_in_input_order m x x_len"
proof -
  obtain hh ht where r: "r = (hh, ht)" by (cases r)
  note A = forward_Inr [OF assms [unfolded r]]
  show ?thesis
    unfolding r forward_in_input_order_def Let_def pad_packed_sequence_def
    using A(1,2) by (simp add: final_state_def comp_def)
qed


text \<open>
  Claim C9.  \<^verbatim>\<open>RNNEmbedding.forward\<close> sorts the batch by decreasing length,
  runs the network on the packed batch and gathers both results with the
  inverse permutation.  Whenever it returns, both returned tensors are those
  of the network applied to the sequences in input order: row \<open>i\<close> belongs to
  input sequence \<open>i\<close>.  It does return on every batch that is not empty,
  has a positive length within the padded length for every sequence, and is
  not sent through the bidirectional GRU branch.
\<close>

theorem RNNEmbedding_forward_order:
  "(\<forall>r. RNNEmbedding_forward m x x_len = Inr r \<longrightarrow> r = forward_in_input_order m x x_len) \<and>
   (x_len \<noteq> [] \<and> length x_len \<le> length x \<and>
    (\<forall>i<length x_len. 0 < x_len ! i \<and> x_len ! i \<le> length (x ! i)) \<and>
    \<not> (rnn_type m \<noteq> ''lstm'' \<and> num_directions m = 2)
    \<longrightarrow> RNNEmbedding_forward m x x_len = Inr (forward_in_input_order m x x_len))"
proof (intro conjI allI impI)
  fix r assume "RNNEmbedding_forward m x x_len = Inr r"
  then show "r = forward_in_input_order m x x_len" by (rule forward_Inr_ref)
next
  assume a: "x_len \<noteq> [] \<and> length x_len \<le> length x \<and>
    (\<forall>i<length x_len. 0 < x_len ! i \<and> x_len ! i \<le> length (x ! i)) \<and>
    \<not> (rnn_type m \<noteq> ''lstm'' \<and> num_directions m = 2)"
  then have "\<exists>r. RNNEmbedding_forward m x x_len = Inr r"
    using forward_total [of x_len x m] by (simp split: if_splits)
  then obtain r where r: "RNNEmbedding_forward m x x_len = Inr r" ..
  with forward_Inr_ref [OF r] show "RNNEmbedding_forward m x x_len = Inr (forward_in_input_order m x x_len)"
    by simp
qed

theorem RNNEmbedding_forward_order_witness:
  "RNNEmbedding_forward \<lparr>rnn_type = ''lstm'', hidden_size = Some 1, num_directions = 1, model = example_rnn\<rparr>
      [[[Fin 1], [Fin 0]], [[Fin 2], [Fin 3]]] [1, 2] =
   Inr (forward_in_input_order \<lparr>rnn_type = ''lstm'', hidden_size = Some 1, num_directions = 1, model = example_rnn\<rparr>
      [[[Fin 1], [Fin 0]], [[Fin 2], [Fin 3]]] [1, 2]) \<and>
   forward_in_input_order \<lparr>rnn_type = ''lstm'', hidden_size = Some 1, num_directions = 1, model = example_rnn\<rparr>
      [[[Fin 1], [Fin 0]], [[Fin 2], [Fin 3]]] [1, 2] =
   ([[[Fin 2], [Fin 0]], [[Fin 3], [Fin 4]]], [[Fin 1], [Fin 3]])"
proof -
  have v: "\<forall>i<length [1, 2::nat]. 0 < [1, 2::nat] ! i \<and>
        [1, 2::nat] ! i \<le> length ([[[Fin 1], [Fin 0]], [[Fin 2], [Fin 3]]] ! i)"
    by (simp add: less_Suc_eq all_conj_distrib)
  have "forward_in_input_order \<lparr>rnn_type = ''lstm'', hidden_size = Some 1, num_directions = 1, model = example_rnn\<rparr>
      [[[Fin 1], [Fin 0]], [[Fin 2], [Fin 3]]] [1, 2] =
     ([[[Fin 2], [Fin 0]], [[Fin 3], [Fin 4]]], [[Fin 1], [Fin 3]])"
    by code_simp
  note e = this
  have nb: "\<not> (rnn_type \<lparr>rnn_type = ''lstm'', hidden_size = Some 1, num_directions = 1, model = example_rnn\<rparr> \<noteq> ''lstm'' \<and>
      num_directions \<lparr>rnn_type = ''lstm'', hidden_size = Some 1, num_directions = 1, model = example_rnn\<rparr> = 2)"
    by simp
  have p: "[1, 2::nat] \<noteq> []" "length [1, 2::nat] \<le> length [[[Fin 1], [Fin 0]], [[Fin 2], [Fin 3]]]"
    by simp_all
  note pre = conjI [OF p(1) conjI [OF p(2) conjI [OF v nb]]]
  note RNNEmbedding_forward_order [of "\<lparr>rnn_type = ''lstm'', hidden_size = Some 1, num_directions = 1, model = example_rnn\<rparr>"
       "[[[Fin 1], [Fin 0]], [[Fin 2], [Fin 3]]]" "[1, 2]"]
  from mp [OF conjunct2 [OF this] pre] e show ?thesis by (intro conjI)
qed

subsection \<open>The bidirectional GRU branch\<close>

lemma init_bigru_fields:
  assumes "RNNEmbedding_init nn isz hdn True ''gru'' = Inr m"
  shows "rnn_type m = ''gru''" and "num_directions m = 2"
  using assms
  by (auto simp: RNNEmbedding_init_def Let_def split: if_splits sum.splits)

text \<open>
  Claim C4, as amended.  On an instance constructed with
  \<^verbatim>\<open>rnn_type='gru'\<close> and \<^verbatim>\<open>bidirectional=True\<close>, \<^verbatim>\<open>forward\<close>
  never returns; on every batch that passes sorting, indexing and packing
  (not empty, every length positive and within the padded length) and that
  the network accepts, it raises \<^verbatim>\<open>NameError\<close>.
\<close>

theorem RNNEmbedding_forward_bigru:
  assumes "RNNEmbedding_init nn isz hdn True ''gru'' = Inr m"
  shows "(\<forall>r. RNNEmbedding_forward m x x_len \<noteq> Inr r) \<and>
         (x_len \<noteq> [] \<and> length x_len \<le> length x \<and>
          (\<forall>i<length x_len. 0 < x_len ! i \<and> x_len ! i \<le> length (x ! i))
          \<longrightarrow> RNNEmbedding_forward m x x_len = Inl NameError)"
proof -
  note f = init_bigru_fields [OF assms]
  have g: "rnn_type m \<noteq> ''lstm'' \<and> num_directions m = 2" using f by simp
  have 1: "RNNEmbedding_forward m x x_len \<noteq> Inr r" for r
  proof
    assume a: "RNNEmbedding_forward m x x_len = Inr r"
    obtain hh ht where r: "r = (hh, ht)" by (cases r)
    have nb: "\<not> (rnn_type m \<noteq> ''lstm'' \<and> num_directions m = 2)"
      by (rule forward_Inr(3) [OF a [unfolded r]])
    show False by (rule notE [OF nb g])
  qed
  have 2: "RNNEmbedding_forward m x x_len = Inl NameError"
    if "x_len \<noteq> []" "length x_len \<le> length x"
      "\<forall>i<length x_len. 0 < x_len ! i \<and> x_len ! i \<le> length (x ! i)"
    using forward_total [OF that, of m] g by simp
  show ?thesis
  proof (intro conjI allI impI)
    fix r show "RNNEmbedding_forward m x x_len \<noteq> Inr r" by (rule 1)
  next
    assume "x_len \<noteq> [] \<and> length x_len \<le> length x \<and>
          (\<forall>i<length x_len. 0 < x_len ! i \<and> x_len ! i \<le> length (x ! i))"
    then show "RNNEmbedding_forward m x x_len = Inl NameError"
      by (intro 2) simp_all
  qed
qed

lemma example_bigru:
  "RNNEmbedding_init (\<lambda>t i h b. Inr example_rnn) 1 (Some 2) True ''gru'' =
     Inr \<lparr>rnn_type = ''gru'', hidden_size = Some 1, num_directions = 2, model = example_rnn\<rparr>"
  by (simp add: RNNEmbedding_init_def)

theorem RNNEmbedding_forward_bigru_witness:
  "RNNEmbedding_forward \<lparr>rnn_type = ''gru'', hidden_size = Some 1, num_directions = 2, model = example_rnn\<rparr>
     [[[Fin 1], [Fin 2]]] [2] = Inl NameError"
proof -
  have v: "[2::nat] \<noteq> [] \<and> length [2::nat] \<le> length [[[Fin 1], [Fin 2]]] \<and>
          (\<forall>i<length [2::nat]. 0 < [2::nat] ! i \<and> [2::nat] ! i \<le> length ([[[Fin 1], [Fin 2]]] ! i))"
    by simp
  show ?thesis
    by (rule mp [OF conjunct2 [OF RNNEmbedding_forward_bigru [OF example_bigru, of "[[[Fin 1], [Fin 2]]]" "[2]"]] v])
qed

text \<open>
  Claim C4 as stated fails on a batch with a sequence of length zero:
  \<^verbatim>\<open>pack_padded_sequence\<close> raises \<^verbatim>\<open>RuntimeError\<close> at line 435, before
  the undefined name is reached.
\<close>

theorem RNNEmbedding_forward_bigru_zero_length:
  "RNNEmbedding_init (\<lambda>t i h b. Inr example_rnn) 1 (Some 2) True ''gru'' =
     Inr \<lparr>rnn_type = ''gru'', hidden_size = Some 1, num_directions = 2, model = example_rnn\<rparr> \<and>
   RNNEmbedding_forward \<lparr>rnn_type = ''gru'', hidden_size = Some 1, num_directions = 2, model = example_rnn\<rparr>
     [[[Fin 1], [Fin 2]]] [0] = Inl RuntimeError"
proof
  show "RNNEmbedding_init (\<lambda>t i h b. Inr example_rnn) 1 (Some 2) True ''gru'' =
     Inr \<lparr>rnn_type = ''gru'', hidden_size = Some 1, num_directions = 2, model = example_rnn\<rparr>"
    by (simp add: RNNEmbedding_init_def)
  show "RNNEmbedding_forward \<lparr>rnn_type = ''gru'', hidden_size = Some 1, num_directions = 2, model = example_rnn\<rparr>
     [[[Fin 1], [Fin 2]]] [0] = Inl RuntimeError"
    by code_simp
qed

subsection \<open>The mean embedding\<close>

lemma fadd_zero_left [simp]: "fadd (Fin 0) v = v"
  by (cases v) simp_all











text \<open>
  Claim C7.  No length is checked against zero and no error is raised: on
  an item of length zero the division is by zero, and the entries of the
  result are an infinity and not-a-number, none of them a finite number.
\<close>

theorem MeanEmbedding_forward_zero_length:
  "MeanEmbedding_forward [[[Fin 1, Fin 0], [Fin 2, Fin 0]]] [0] = Inr [[PInf, NaN]] \<and>
   is_finite PInf = False \<and> is_finite NaN = False"
  by code_simp

subsection \<open>Padding and unpadding in \<open>EmbeddingConstruction.forward\<close>\<close>

lemma length_unbatching [simp]: "length (unbatching feat mx s ns) = length ns"
  by (induction ns arbitrary: s) (simp_all add: Let_def)











subsection \<open>The word embedding layers\<close>

lemma word_emb_layer_call_Inr:
  assumes "word_emb_layer_call l inp = Inr f"
  shows "\<exists>W. l = WordEmbedding W" and "f = map (map (\<lambda>w. lookup_table l ! w)) inp"
    and "\<forall>item\<in>set inp. \<forall>w\<in>set item. w < length (lookup_table l)"
  using assms
  by (auto simp: word_emb_layer_call_def embedding_lookup_def lookup_table_def list_all_iff
           split: word_emb_layer.splits if_splits)

lemma apply_layers_Inr:
  assumes "apply_layers ls inp = Inr fs"
  shows "(\<forall>l\<in>set ls. \<exists>W. l = WordEmbedding W) \<and>
         fs = map (\<lambda>l. map (map (\<lambda>w. lookup_table l ! w)) inp) ls \<and>
         (\<forall>l\<in>set ls. \<forall>item\<in>set inp. \<forall>w\<in>set item. w < length (lookup_table l))"
  using assms
proof (induction ls arbitrary: fs)
  case Nil then show ?case by simp
next
  case (Cons l ls)
  obtain f where f: "word_emb_layer_call l inp = Inr f"
    using Cons.prems by (cases "word_emb_layer_call l inp") simp_all
  obtain fs' where fs': "apply_layers ls inp = Inr fs'"
    using Cons.prems f by (cases "apply_layers ls inp") simp_all
  have fs: "fs = f # fs'" using Cons.prems f fs' by simp
  note A = word_emb_layer_call_Inr [OF f]
  note B = Cons.IH [OF fs']
  show ?case using A B fs by simp
qed

lemma apply_layers_bert:
  assumes "BertEmbedding b \<in> set ls"
  shows "\<exists>e. apply_layers ls inp = Inl e"
proof (cases "apply_layers ls inp")
  case (Inl e) then show ?thesis by blast
next
  case (Inr fs)
  from apply_layers_Inr [OF Inr] assms show ?thesis by auto
qed

lemma map2_map_map: "map2 f (map g xs) (map h xs) = map (\<lambda>x. f (g x) (h x)) xs"
  by (induction xs) simp_all

lemma cat_step:
  "map2 (map2 (@)) (map (map g) inp) (map (map h) inp) = map (map (\<lambda>w. g w @ h w)) inp"
  by (simp add: map2_map_map)

lemma foldl_cat:
  "foldl (map2 (map2 (@))) (map (map g) inp) (map (\<lambda>l. map (map (F l)) inp) ls) =
     map (map (\<lambda>w. g w @ concat (map (\<lambda>l. F l w) ls))) inp"
proof (induction ls arbitrary: g)
  case Nil then show ?case by simp
next
  case (Cons l ls)
  show ?case by (simp add: cat_step Cons.IH)
qed

lemma word_features_Inr:
  assumes "word_features layers inp = Inr feat"
  shows "layers \<noteq> []" and "\<forall>l\<in>set layers. \<exists>W. l = WordEmbedding W"
    and "feat = map (map (\<lambda>w. concat (map (\<lambda>l. lookup_table l ! w) layers))) inp"
    and "\<forall>l\<in>set layers. \<forall>item\<in>set inp. \<forall>w\<in>set item. w < length (lookup_table l)"
proof -
  obtain fs where fs: "apply_layers layers inp = Inr fs"
    using assms by (cases "apply_layers layers inp") (simp_all add: word_features_def)
  note A = apply_layers_Inr [OF fs]
  have c: "torch_cat_last fs = Inr feat" using assms fs by (simp add: word_features_def)
  then obtain t rest where tr: "fs = t # rest" by (cases fs) (simp_all add: torch_cat_last_def)
  with A show ne: "layers \<noteq> []" by auto
  then obtain l ls where ll: "layers = l # ls" by (cases layers) auto
  show "\<forall>l\<in>set layers. \<exists>W. l = WordEmbedding W" using A by simp
  show "\<forall>l\<in>set layers. \<forall>item\<in>set inp. \<forall>w\<in>set item. w < length (lookup_table l)" using A by simp
  have "feat = foldl (map2 (map2 (@))) (map (map (\<lambda>w. lookup_table l ! w)) inp)
                 (map (\<lambda>l. map (map (\<lambda>w. lookup_table l ! w)) inp) ls)"
    using c A ll by (simp add: torch_cat_last_def)
  also have "\<dots> = map (map (\<lambda>w. lookup_table l ! w @ concat (map (\<lambda>l. lookup_table l ! w) ls))) inp"
    by (rule foldl_cat)
  finally show "feat = map (map (\<lambda>w. concat (map (\<lambda>l. lookup_table l ! w) layers))) inp"
    by (simp add: ll)
qed

lemma apply_layers_total:
  assumes "\<forall>l\<in>set ls. \<exists>W. l = WordEmbedding W"
    and "\<forall>l\<in>set ls. \<forall>item\<in>set inp. \<forall>w\<in>set item. w < length (lookup_table l)"
  shows "\<exists>fs. apply_layers ls inp = Inr fs \<and> length fs = length ls"
  using assms
proof (induction ls)
  case Nil then show ?case by simp
next
  case (Cons l ls)
  then obtain W where W: "l = WordEmbedding W" by auto
  have "\<forall>item\<in>set inp. \<forall>w\<in>set item. w < length W"
    using Cons.prems(2) W by (simp add: lookup_table_def)
  then have c: "word_emb_layer_call l inp = Inr (map (map (\<lambda>w. W ! w)) inp)"
    by (simp add: W word_emb_layer_call_def embedding_lookup_def list_all_iff)
  from Cons obtain fs where "apply_layers ls inp = Inr fs" "length fs = length ls" by auto
  with c show ?case by simp
qed

lemma feature_width:
  assumes rect: "\<forall>l\<in>set layers. \<forall>row\<in>set (lookup_table l). length row = ncols (lookup_table l)"
    and rng: "\<forall>l\<in>set layers. w < length (lookup_table l)"
  shows "length (concat (map (\<lambda>l. lookup_table l ! w) layers)) =
         sum_list (map (\<lambda>l. ncols (lookup_table l)) layers)"
proof -
  have "map (\<lambda>l. length (lookup_table l ! w)) layers = map (\<lambda>l. ncols (lookup_table l)) layers"
    using rect rng by (intro map_cong) auto
  then have "sum_list (map (\<lambda>l. length (lookup_table l ! w)) layers) =
             sum_list (map (\<lambda>l. ncols (lookup_table l)) layers)"
    by (rule arg_cong)
  then show ?thesis by (simp add: length_concat comp_def)
qed


text \<open>
  Claim C8, as amended.  \<^verbatim>\<open>forward\<close> applies the registered word
  embedding layers in order.  Whenever this stage returns, there is at least
  one layer, every layer is a lookup table, the features at a position are
  the rows of the tables at that word index appended in the order of the
  layers, and (for tables with rows of one width) the feature width is the
  sum of the widths of the tables.  The stage returns when there is a layer,
  all layers are lookup tables and every index is inside every table.  A
  registered \<^verbatim>\<open>BertEmbedding\<close> makes the stage raise on every input.
\<close>

theorem word_features_concat:
  "(\<forall>feat. word_features layers inp = Inr feat \<longrightarrow>
      layers \<noteq> [] \<and> (\<forall>l\<in>set layers. \<exists>W. l = WordEmbedding W) \<and>
      feat = map (map (\<lambda>w. concat (map (\<lambda>l. lookup_table l ! w) layers))) inp \<and>
      ((\<forall>l\<in>set layers. \<forall>row\<in>set (lookup_table l). length row = ncols (lookup_table l)) \<longrightarrow>
       (\<forall>item\<in>set feat. \<forall>v\<in>set item.
           length v = sum_list (map (\<lambda>l. ncols (lookup_table l)) layers)))) \<and>
   (layers \<noteq> [] \<and> (\<forall>l\<in>set layers. \<exists>W. l = WordEmbedding W) \<and>
    (\<forall>l\<in>set layers. \<forall>item\<in>set inp. \<forall>w\<in>set item. w < length (lookup_table l)) \<longrightarrow>
      (\<exists>feat. word_features layers inp = Inr feat)) \<and>
   ((\<exists>b. BertEmbedding b \<in> set layers) \<longrightarrow> (\<exists>e. word_features layers inp = Inl e))"
proof (intro conjI allI impI)
  fix feat assume R: "word_features layers inp = Inr feat"
  note A = word_features_Inr [OF R]
  show "layers \<noteq> []" by (rule A(1))
  show "\<forall>l\<in>set layers. \<exists>W. l = WordEmbedding W" by (rule A(2))
  show "feat = map (map (\<lambda>w. concat (map (\<lambda>l. lookup_table l ! w) layers))) inp" by (rule A(3))
  assume rect: "\<forall>l\<in>set layers. \<forall>row\<in>set (lookup_table l). length row = ncols (lookup_table l)"
  show "\<forall>item\<in>set feat. \<forall>v\<in>set item.
           length v = sum_list (map (\<lambda>l. ncols (lookup_table l)) layers)"
  proof (intro ballI)
    fix item v assume "item \<in> set feat" "v \<in> set item"
    then obtain it w where "it \<in> set inp" "w \<in> set it"
      and v: "v = concat (map (\<lambda>l. lookup_table l ! w) layers)"
      unfolding A(3) by auto
    with A(4) have "\<forall>l\<in>set layers. w < length (lookup_table l)" by blast
    from feature_width [OF rect this] show "length v = sum_list (map (\<lambda>l. ncols (lookup_table l)) layers)"
      by (simp add: v)
  qed
next
  assume a: "layers \<noteq> [] \<and> (\<forall>l\<in>set layers. \<exists>W. l = WordEmbedding W) \<and>
    (\<forall>l\<in>set layers. \<forall>item\<in>set inp. \<forall>w\<in>set item. w < length (lookup_table l))"
  then obtain fs where fs: "apply_layers layers inp = Inr fs" "length fs = length layers"
    using apply_layers_total [of layers inp] by blast
  with a have "fs \<noteq> []" by auto
  then obtain t rest where "fs = t # rest" by (cases fs) auto
  with fs show "\<exists>feat. word_features layers inp = Inr feat"
    by (simp add: word_features_def torch_cat_last_def)
next
  assume "\<exists>b. BertEmbedding b \<in> set layers"
  then obtain b where "BertEmbedding b \<in> set layers" ..
  from apply_layers_bert [OF this, of inp] obtain e where "apply_layers layers inp = Inl e" ..
  then show "\<exists>e. word_features layers inp = Inl e" by (simp add: word_features_def)
qed

lemma example_word_features:
  "word_features [WordEmbedding [[Fin 0, Fin 1], [Fin 2, Fin 3]], WordEmbedding [[Fin 4], [Fin 5]]]
      [[1, 0]] = Inr [[[Fin 2, Fin 3, Fin 5], [Fin 0, Fin 1, Fin 4]]]"
  by code_simp

theorem word_features_concat_witness:
  "word_features [WordEmbedding [[Fin 0, Fin 1], [Fin 2, Fin 3]], WordEmbedding [[Fin 4], [Fin 5]]]
      [[1, 0]] = Inr [[[Fin 2, Fin 3, Fin 5], [Fin 0, Fin 1, Fin 4]]] \<and>
   length [Fin 2, Fin 3, Fin 5] = 2 + 1 \<and> length [Fin 0, Fin 1, Fin 4] = 2 + 1"
proof -
  let ?L = "[WordEmbedding [[Fin 0, Fin 1], [Fin 2, Fin 3]], WordEmbedding [[Fin 4], [Fin 5]]]"
  note T = conjunct1 [OF word_features_concat [of ?L "[[1, 0]]"]]
  have rect: "\<forall>l\<in>set ?L. \<forall>row\<in>set (lookup_table l). length row = ncols (lookup_table l)"
    by (simp add: lookup_table_def ncols_def)
  have s: "sum_list (map (\<lambda>l. ncols (lookup_table l)) ?L) = 2 + 1"
    by (simp add: lookup_table_def ncols_def)
  from mp [OF spec [OF T] example_word_features]
  have "(\<forall>l\<in>set ?L. \<forall>row\<in>set (lookup_table l). length row = ncols (lookup_table l)) \<longrightarrow>
       (\<forall>item\<in>set [[[Fin 2, Fin 3, Fin 5], [Fin 0, Fin 1, Fin 4]]]. \<forall>v\<in>set item.
           length v = sum_list (map (\<lambda>l. ncols (lookup_table l)) ?L))"
    by (elim conjE)
  from mp [OF this rect] s
  have "\<forall>item\<in>set [[[Fin 2, Fin 3, Fin 5], [Fin 0, Fin 1, Fin 4]]]. \<forall>v\<in>set item. length v = 2 + 1"
    by simp
  then have "length [Fin 2, Fin 3, Fin 5] = 2 + 1 \<and> length [Fin 0, Fin 1, Fin 4] = 2 + 1"
    by simp
  with example_word_features show ?thesis by (intro conjI) simp_all
qed

text \<open>
  Claim C8 as stated fails when \<^verbatim>\<open>'bert'\<close> is configured: the
  constructor registers the \<^verbatim>\<open>BertEmbedding\<close> stub, and \<^verbatim>\<open>forward\<close>
  raises when it calls the stub with the input tensor.
\<close>

theorem EmbeddingConstruction_forward_bert:
  "EmbeddingConstruction_init (\<lambda>t i h b. Inr example_rnn) [[Fin 1, Fin 2]]
      (StrList [''w2v'', ''bert'']) ''mean'' ''none'' None True =
     Inr \<lparr>node_edge_emb_strategy = ''mean'', seq_info_encode_strategy = ''none'',
          word_emb_layers = [WordEmbedding [[Fin 1, Fin 2]], BertEmbedding True],
          node_edge_emb_layer = MeanEmbedding, seq_info_encode_layer = None\<rparr> \<and>
   EmbeddingConstruction_forward
     \<lparr>node_edge_emb_strategy = ''mean'', seq_info_encode_strategy = ''none'',
      word_emb_layers = [WordEmbedding [[Fin 1, Fin 2]], BertEmbedding True],
      node_edge_emb_layer = MeanEmbedding, seq_info_encode_layer = None\<rparr>
     [[0]] [1] [1] = Inl TypeError"
proof
  show "EmbeddingConstruction_init (\<lambda>t i h b. Inr example_rnn) [[Fin 1, Fin 2]]
      (StrList [''w2v'', ''bert'']) ''mean'' ''none'' None True =
     Inr \<lparr>node_edge_emb_strategy = ''mean'', seq_info_encode_strategy = ''none'',
          word_emb_layers = [WordEmbedding [[Fin 1, Fin 2]], BertEmbedding True],
          node_edge_emb_layer = MeanEmbedding, seq_info_encode_layer = None\<rparr>"
    by (simp add: EmbeddingConstruction_init_def make_node_edge_emb_layer_def
        make_seq_info_encode_layer_def as_list_def)
  show "EmbeddingConstruction_forward
     \<lparr>node_edge_emb_strategy = ''mean'', seq_info_encode_strategy = ''none'',
      word_emb_layers = [WordEmbedding [[Fin 1, Fin 2]], BertEmbedding True],
      node_edge_emb_layer = MeanEmbedding, seq_info_encode_layer = None\<rparr>
     [[0]] [1] [1] = Inl TypeError"
    by code_simp
qed

subsection \<open>The topology builders of the CoNLL example\<close>








text \<open>
  Claim C6 at the graph type \<^verbatim>\<open>'line'\<close> with the builder left at its
  default: the chain does not select \<^verbatim>\<open>LineBasedGraphConstruction\<close> but
  raises \<^verbatim>\<open>NotImplementedError\<close>, because the second test reads
  \<^verbatim>\<open>self.topology_builder\<close> and not \<^verbatim>\<open>self.graph_type\<close>.
\<close>

theorem build_topology_line_default_builder:
  "build_topology_static example_dataset [''EU rejects German call''] = Inl NotImplementedError"
  by (simp add: example_dataset_def build_topology_static_def select_topology_builder_def)

text \<open>No branch of the chain selects \<^verbatim>\<open>IEBasedGraphConstruction\<close>.\<close>

lemma IE_never_selected:
  assumes "select_topology_builder self = Inr (self1, p, a)"
  shows "topology_builder self1 \<noteq> BuilderClass IEBasedGraphConstruction"
  using assms
  by (simp add: select_topology_builder_def split: if_splits) auto

end
